theory Spec2Isabelle
  imports Complex_Main
begin

section \<open>Conventions of the embedding\<close>

text \<open>
  The analytics service is Python on the Django ORM. The embedding keeps the names of the
  source. Python integers are \<open>int\<close>; Python floats are modelled by exact rationals
  (\<open>rat\<close>), so rounding is not part of the model; every value compared below
  (\<open>0.3\<close>, \<open>0.2\<close>, \<open>0.5\<close>, \<open>0.6\<close>, \<open>0.8\<close>, \<open>25.0\<close>) is also what the float computation
  prints. An exception is a value of \<open>py_error\<close>, and a function that may raise returns
  \<open>py_error + 'a\<close> with \<open>Inl\<close> for the exception.

  \<open>tasks.py\<close> uses the names \<open>models.Q\<close>, \<open>List\<close>, \<open>Dict\<close>, \<open>Any\<close> and \<open>os\<close> without
  importing them; the embedding reads each as the library object it denotes.
\<close>

datatype py_error = ZeroDivisionError | OverflowError | ValueError | Raised string


section \<open>analytics/models.py: RetentionCohort\<close>



section \<open>Datetimes\<close>

text \<open>
  A \<open>datetime\<close> is a calendar date with the time of day in microseconds. \<open>replace_day\<close>
  is \<open>dt.replace(day=d)\<close>, \<open>add_days n\<close> is \<open>dt + timedelta(days=n)\<close> and \<open>sub_days n\<close>
  is \<open>dt - timedelta(days=n)\<close> for \<open>n \<ge> 0\<close>; as in Python, a day outside the month
  raises ValueError and a result outside the years 1 to 9999 raises OverflowError.
\<close>

record datetime =
  year :: int
  month :: int
  day :: int
  micros :: int

definition is_leap :: "int \<Rightarrow> bool" where
  "is_leap y = (y mod 4 = 0 \<and> (y mod 100 \<noteq> 0 \<or> y mod 400 = 0))"

definition days_in_month :: "int \<Rightarrow> int \<Rightarrow> int" where
  "days_in_month y m =
     (if m = 2 then (if is_leap y then 29 else 28)
      else if m = 4 \<or> m = 6 \<or> m = 9 \<or> m = 11 then 30 else 31)"

definition valid_datetime :: "datetime \<Rightarrow> bool" where
  "valid_datetime dt =
     (1 \<le> year dt \<and> year dt \<le> 9999 \<and> 1 \<le> month dt \<and> month dt \<le> 12 \<and>
      1 \<le> day dt \<and> day dt \<le> days_in_month (year dt) (month dt) \<and>
      0 \<le> micros dt \<and> micros dt < 86400000000)"

definition replace_day :: "int \<Rightarrow> datetime \<Rightarrow> py_error + datetime" where
  "replace_day d dt =
     (if 1 \<le> d \<and> d \<le> days_in_month (year dt) (month dt) then Inr (dt\<lparr>day := d\<rparr>)
      else Inl ValueError)"

definition next_day :: "datetime \<Rightarrow> py_error + datetime" where
  "next_day dt =
     (if day dt < days_in_month (year dt) (month dt) then Inr (dt\<lparr>day := day dt + 1\<rparr>)
      else if month dt < 12 then Inr (dt\<lparr>month := month dt + 1, day := 1\<rparr>)
      else if year dt < 9999 then Inr (dt\<lparr>year := year dt + 1, month := 1, day := 1\<rparr>)
      else Inl OverflowError)"

definition prev_day :: "datetime \<Rightarrow> py_error + datetime" where
  "prev_day dt =
     (if 1 < day dt then Inr (dt\<lparr>day := day dt - 1\<rparr>)
      else if 1 < month dt then
        Inr (dt\<lparr>month := month dt - 1, day := days_in_month (year dt) (month dt - 1)\<rparr>)
      else if 1 < year dt then Inr (dt\<lparr>year := year dt - 1, month := 12, day := 31\<rparr>)
      else Inl OverflowError)"

fun add_days :: "nat \<Rightarrow> datetime \<Rightarrow> py_error + datetime" where
  "add_days 0 dt = Inr dt"
| "add_days (Suc n) dt = (case next_day dt of Inl e \<Rightarrow> Inl e | Inr dt' \<Rightarrow> add_days n dt')"

fun sub_days :: "nat \<Rightarrow> datetime \<Rightarrow> py_error + datetime" where
  "sub_days 0 dt = Inr dt"
| "sub_days (Suc n) dt = (case prev_day dt of Inl e \<Rightarrow> Inl e | Inr dt' \<Rightarrow> sub_days n dt')"

text \<open>The comparison \<open>a <= b\<close> of two datetimes of one time zone.\<close>

definition dt_le :: "datetime \<Rightarrow> datetime \<Rightarrow> bool" where
  "dt_le a b =
     (year a < year b \<or> (year a = year b \<and>
       (month a < month b \<or> (month a = month b \<and>
         (day a < day b \<or> (day a = day b \<and> micros a \<le> micros b))))))"

section \<open>analytics/models.py: AutomatedReport\<close>

record AutomatedReport =
  report_id :: nat
  frequency :: string
  last_run :: "datetime option"
  next_run :: datetime
  is_active :: bool

text \<open>
  \<open>calculate_next_run\<close> mutates \<open>self.next_run\<close>; the first argument is the value of
  \<open>timezone.now()\<close> at the call. A frequency other than the three named ones leaves
  \<open>next_run\<close> as it is.
\<close>

definition calculate_next_run :: "datetime \<Rightarrow> AutomatedReport \<Rightarrow> py_error + AutomatedReport" where
  "calculate_next_run now self =
     (case last_run self of
        None \<Rightarrow> Inr (self\<lparr>next_run := now\<rparr>)
      | Some lr \<Rightarrow>
          if frequency self = ''daily'' then
            (case add_days 1 lr of Inl e \<Rightarrow> Inl e | Inr t \<Rightarrow> Inr (self\<lparr>next_run := t\<rparr>))
          else if frequency self = ''weekly'' then
            (case add_days 7 lr of Inl e \<Rightarrow> Inl e | Inr t \<Rightarrow> Inr (self\<lparr>next_run := t\<rparr>))
          else if frequency self = ''monthly'' then
            (case replace_day 28 lr of
               Inl e \<Rightarrow> Inl e
             | Inr d28 \<Rightarrow>
                 (case add_days 4 d28 of
                    Inl e \<Rightarrow> Inl e
                  | Inr next_month \<Rightarrow>
                      (case sub_days (nat (day next_month - 1)) next_month of
                         Inl e \<Rightarrow> Inl e
                       | Inr t \<Rightarrow> Inr (self\<lparr>next_run := t\<rparr>))))
          else Inr self)"

section \<open>analytics/tasks.py: generate_scheduled_reports_task\<close>

text \<open>
  The table of reports is a list of rows. \<open>generate_report\<close> is the report generator
  (an external collaborator), a parameter that returns an execution or raises. The loop
  returns the table after the saves, \<open>generated_count\<close> and one event for each of the two
  log lines of the loop body.
\<close>

datatype report_event = Generated nat | Failed nat py_error


definition due_reports :: "datetime \<Rightarrow> AutomatedReport list \<Rightarrow> AutomatedReport list" where
  "due_reports now reports = filter (\<lambda>r. is_active r \<and> dt_le (next_run r) now) reports"

definition save_report :: "AutomatedReport \<Rightarrow> AutomatedReport list \<Rightarrow> AutomatedReport list" where
  "save_report r reports = map (\<lambda>x. if report_id x = report_id r then r else x) reports"

fun report_loop ::
  "(AutomatedReport \<Rightarrow> py_error + 'e) \<Rightarrow> datetime \<Rightarrow> AutomatedReport list \<Rightarrow>
   AutomatedReport list \<Rightarrow> AutomatedReport list \<times> nat \<times> report_event list" where
  "report_loop generate_report now [] reports = (reports, 0, [])"
| "report_loop generate_report now (report # rest) reports =
     (case generate_report report of
        Inl e \<Rightarrow>
          (case report_loop generate_report now rest reports of
             (reports', generated_count, events) \<Rightarrow>
               (reports', generated_count, Failed (report_id report) e # events))
      | Inr execution \<Rightarrow>
          (case calculate_next_run now (report\<lparr>last_run := Some now\<rparr>) of
             Inl e \<Rightarrow>
               (case report_loop generate_report now rest reports of
                  (reports', generated_count, events) \<Rightarrow>
                    (reports', generated_count, Failed (report_id report) e # events))
           | Inr report' \<Rightarrow>
               (case report_loop generate_report now rest (save_report report' reports) of
                  (reports', generated_count, events) \<Rightarrow>
                    (reports', generated_count + 1, Generated (report_id report) # events))))"

definition generate_scheduled_reports_task ::
  "(AutomatedReport \<Rightarrow> py_error + 'e) \<Rightarrow> datetime \<Rightarrow> AutomatedReport list \<Rightarrow>
   AutomatedReport list \<times> nat \<times> report_event list" where
  "generate_scheduled_reports_task generate_report now reports =
     report_loop generate_report now (due_reports now reports) reports"

section \<open>Instants and durations\<close>

text \<open>
  The tasks compare stored timestamps with \<open>timezone.now()\<close> shifted by a
  \<open>timedelta\<close>. There a timestamp is an instant, an integer number of microseconds,
  and a \<open>timedelta\<close> is a number of microseconds; \<open>timedelta_in_days\<close> is the
  attribute \<open>.days\<close> of a \<open>timedelta\<close>.
\<close>

definition timedelta_days :: "int \<Rightarrow> int" where
  "timedelta_days n = n * 86400000000"

definition timedelta_minutes :: "int \<Rightarrow> int" where
  "timedelta_minutes n = n * 60000000"

definition timedelta_in_days :: "int \<Rightarrow> int" where
  "timedelta_in_days delta = delta div 86400000000"

section \<open>analytics/tasks.py: trigger_webhooks_task\<close>

text \<open>
  The declarations of \<open>AnomalyDetection\<close> and \<open>WebhookLog\<close> are not part of the source;
  the records hold the primary key and the columns that the tasks read, and every other
  column is the extension of the record. \<open>send_anomaly_alert\<close> (of \<open>WebhookService\<close>,
  not part of the source either) is a parameter that returns or raises.

  \<open>webhook_loop\<close> is the \<open>for\<close> loop over the evaluated queryset. It returns the
  anomalies on which \<open>send_anomaly_alert\<close> was invoked, in order, and the exception that
  reached the handler of the task, if any.
\<close>

record AnomalyDetection =
  anomaly_id :: nat
  detected_at :: int
  status :: string

record WebhookLog =
  log_id :: nat
  sent_at :: int

definition recent_anomalies ::
  "int \<Rightarrow> 'a AnomalyDetection_scheme list \<Rightarrow> 'a AnomalyDetection_scheme list" where
  "recent_anomalies now rows =
     filter (\<lambda>a. detected_at a \<ge> now - timedelta_minutes 5 \<and> status a = ''pending'') rows"

fun webhook_loop ::
  "('a \<Rightarrow> py_error + unit) \<Rightarrow> 'a list \<Rightarrow> 'a list \<times> py_error option" where
  "webhook_loop send_anomaly_alert [] = ([], None)"
| "webhook_loop send_anomaly_alert (anomaly # rest) =
     (case send_anomaly_alert anomaly of
        Inl e \<Rightarrow> ([anomaly], Some e)
      | Inr u \<Rightarrow>
          (case webhook_loop send_anomaly_alert rest of
             (calls, r) \<Rightarrow> (anomaly # calls, r)))"

definition trigger_webhooks_task ::
  "('a AnomalyDetection_scheme \<Rightarrow> py_error + unit) \<Rightarrow> int \<Rightarrow>
   'a AnomalyDetection_scheme list \<Rightarrow> 'a AnomalyDetection_scheme list \<times> py_error option" where
  "trigger_webhooks_task send_anomaly_alert now rows =
     webhook_loop send_anomaly_alert (recent_anomalies now rows)"

section \<open>analytics/tasks.py: cleanup_old_data_task\<close>

text \<open>
  The task reads the clock twice, once for each cutoff. \<open>delete_rows\<close> is
  \<open>QuerySet.delete()\<close> of a filtered queryset: the rows that match the filter leave the
  table. The result is the two tables after the task, \<open>deleted_anomalies\<close> and
  \<open>deleted_logs\<close>.
\<close>

definition delete_rows :: "('r \<Rightarrow> bool) \<Rightarrow> 'r list \<Rightarrow> 'r list" where
  "delete_rows matches rows = filter (\<lambda>r. \<not> matches r) rows"

definition cleanup_old_data_task ::
  "int \<Rightarrow> int \<Rightarrow> 'a AnomalyDetection_scheme list \<Rightarrow> 'b WebhookLog_scheme list \<Rightarrow>
   'a AnomalyDetection_scheme list \<times> 'b WebhookLog_scheme list \<times> nat \<times> nat" where
  "cleanup_old_data_task now1 now2 anomalies logs =
     (let cutoff_date = now1 - timedelta_days 90;
          old_anomalies = filter (\<lambda>a. detected_at a < cutoff_date) anomalies;
          deleted_anomalies = length old_anomalies;
          anomalies' = delete_rows (\<lambda>a. detected_at a < cutoff_date) anomalies;
          log_cutoff = now2 - timedelta_days 30;
          old_logs = filter (\<lambda>l. sent_at l < log_cutoff) logs;
          deleted_logs = length old_logs;
          logs' = delete_rows (\<lambda>l. sent_at l < log_cutoff) logs
      in (anomalies', logs', deleted_anomalies, deleted_logs))"

section \<open>analytics/tasks.py: update_user_behavior_profiles_task\<close>

text \<open>
  The declarations of \<open>NFTTransaction\<close> and \<open>UserBehaviorProfile\<close> are not part of the
  source; the records hold the fields that the task reads and writes. An address field is
  falsy when it is \<open>None\<close> or empty. The table of profiles is a map from the unique
  \<open>wallet_address\<close> to the row.
\<close>

record NFTTransaction =
  buyer_address :: "string option"
  seller_address :: "string option"
  price :: "rat option"
  timestamp :: int
  nft_contract :: string

record UserBehaviorProfile =
  wallet_address :: string
  first_seen :: int
  last_activity :: int
  avg_transaction_value :: rat
  transaction_frequency :: rat
  total_transactions :: int
  total_volume :: rat
  preferred_collections :: "string list"
  risk_score :: rat

type_synonym profiles = "string \<Rightarrow> UserBehaviorProfile option"

definition truthy_address :: "string option \<Rightarrow> string list" where
  "truthy_address a = (case a of None \<Rightarrow> [] | Some s \<Rightarrow> (if s = [] then [] else [s]))"

text \<open>
  \<open>recent_addresses\<close> is the set built by the first loop, as the list of its elements
  in the order in which the second loop visits them (Python fixes no order for a set).
\<close>

definition recent_addresses :: "int \<Rightarrow> NFTTransaction list \<Rightarrow> string list" where
  "recent_addresses start_time txs =
     remdups (concat (map (\<lambda>tx. truthy_address (buyer_address tx) @ truthy_address (seller_address tx))
                          (filter (\<lambda>tx. timestamp tx \<ge> start_time) txs)))"

text \<open>
  \<open>get_or_create\<close> returns the row of the address, inserting it first when it is absent;
  \<open>blank\<close> holds the defaults of the columns that the call does not set.
\<close>

definition get_or_create ::
  "UserBehaviorProfile \<Rightarrow> int \<Rightarrow> string \<Rightarrow> profiles \<Rightarrow> UserBehaviorProfile \<times> profiles" where
  "get_or_create blank now address table =
     (case table address of
        Some profile \<Rightarrow> (profile, table)
      | None \<Rightarrow>
          (let profile = blank\<lparr>wallet_address := address, first_seen := now, last_activity := now\<rparr>
           in (profile, table(address \<mapsto> profile))))"

text \<open>\<open>float(tx.price or 0)\<close>\<close>

definition price_or_0 :: "NFTTransaction \<Rightarrow> rat" where
  "price_or_0 tx = (case price tx of None \<Rightarrow> 0 | Some p \<Rightarrow> p)"

text \<open>
  \<open>order_by('timestamp').first()\<close> and \<open>.last()\<close>; only the timestamp of the row is
  read afterwards.
\<close>

definition first_tx :: "NFTTransaction list \<Rightarrow> int option" where
  "first_tx user_txs = (if user_txs = [] then None else Some (Min (set (map timestamp user_txs))))"

definition last_tx :: "NFTTransaction list \<Rightarrow> int option" where
  "last_tx user_txs = (if user_txs = [] then None else Some (Max (set (map timestamp user_txs))))"

text \<open>The dictionary \<open>collections\<close>, in insertion order.\<close>

fun count_collections :: "NFTTransaction list \<Rightarrow> (string \<times> int) list \<Rightarrow> (string \<times> int) list" where
  "count_collections [] collections = collections"
| "count_collections (tx # rest) collections =
     (let c0 = (if nft_contract tx \<notin> set (map fst collections)
                then collections @ [(nft_contract tx, 0)] else collections);
          c1 = map (\<lambda>kv. if fst kv = nft_contract tx then (fst kv, snd kv + 1) else kv) c0
      in count_collections rest c1)"

text \<open>\<open>sorted(collections.items(), key=lambda x: x[1], reverse=True)[:5]\<close>, a stable sort.\<close>

definition top_collections :: "(string \<times> int) list \<Rightarrow> (string \<times> int) list" where
  "top_collections collections = take 5 (sort_key (\<lambda>kv. - snd kv) collections)"

text \<open>The risk score before \<open>min(risk_score, 1.0)\<close>.\<close>

definition risk_contributions :: "rat \<Rightarrow> rat \<Rightarrow> 'c list \<Rightarrow> int \<Rightarrow> rat" where
  "risk_contributions tx_frequency volume preferred total_count =
     (let r0 = 0;
          r1 = (if tx_frequency > 10 then r0 + 3 / 10 else r0);
          r2 = (if volume > 100 then r1 + 2 / 10 else r1);
          r3 = (if length preferred \<le> 2 \<and> total_count > 10 then r2 + 3 / 10 else r2)
      in r3)"

text \<open>The body of \<open>if user_txs.exists()\<close> up to \<open>profile.save()\<close>.\<close>

definition recompute_profile ::
  "int \<Rightarrow> NFTTransaction list \<Rightarrow> UserBehaviorProfile \<Rightarrow> UserBehaviorProfile" where
  "recompute_profile now user_txs profile =
     (let volume = sum_list (map price_or_0 user_txs);
          total_count = int (length user_txs);
          avg_value = (if total_count > 0 then volume / of_int total_count else 0);
          tx_frequency =
            (case (first_tx user_txs, last_tx user_txs) of
               (Some f, Some l) \<Rightarrow>
                 (let days_active = timedelta_in_days (l - f) + 1
                  in if days_active > 0 then of_int total_count / of_int days_active else 0)
             | _ \<Rightarrow> 0);
          preferred = top_collections (count_collections user_txs []);
          risk = risk_contributions tx_frequency volume preferred total_count
      in profile\<lparr>avg_transaction_value := avg_value,
                 transaction_frequency := tx_frequency,
                 total_transactions := total_count,
                 total_volume := volume,
                 preferred_collections := map fst preferred,
                 risk_score := min risk 1,
                 last_activity := (case last_tx user_txs of Some l \<Rightarrow> l | None \<Rightarrow> now)\<rparr>)"

text \<open>
  One pass of the loop over \<open>recent_addresses\<close>. The computation itself cannot raise;
  an exception in the body comes from the database, and \<open>db_raises address\<close> says that
  the first database call of the pass, \<open>get_or_create\<close>, raises. The pass returns the
  table and whether the profile was saved.
\<close>

definition user_txs_of :: "string \<Rightarrow> NFTTransaction list \<Rightarrow> NFTTransaction list" where
  "user_txs_of address txs =
     filter (\<lambda>tx. buyer_address tx = Some address \<or> seller_address tx = Some address) txs"

definition process_address ::
  "UserBehaviorProfile \<Rightarrow> (string \<Rightarrow> bool) \<Rightarrow> int \<Rightarrow> NFTTransaction list \<Rightarrow> string \<Rightarrow>
   profiles \<Rightarrow> py_error + (profiles \<times> bool)" where
  "process_address blank db_raises now txs address table =
     (if db_raises address then Inl (Raised ''DatabaseError'')
      else
        (case get_or_create blank now address table of
           (profile, table1) \<Rightarrow>
             (let user_txs = user_txs_of address txs
              in if user_txs \<noteq> [] then
                   Inr (table1(address \<mapsto> recompute_profile now user_txs profile), True)
                 else Inr (table1, False))))"

text \<open>
  The loop and the task. The result of the task is its return value, \<open>Inr\<close> of
  \<open>profiles_updated\<close> or \<open>Inl\<close> of the exception caught by the handler of the task,
  and the table as the task leaves it. The clock readings of one run are taken as one
  value \<open>now\<close>.
\<close>

fun profile_loop ::
  "UserBehaviorProfile \<Rightarrow> (string \<Rightarrow> bool) \<Rightarrow> int \<Rightarrow> NFTTransaction list \<Rightarrow> string list \<Rightarrow>
   profiles \<Rightarrow> nat \<Rightarrow> (py_error + nat) \<times> profiles" where
  "profile_loop blank db_raises now txs [] table updated_profiles = (Inr updated_profiles, table)"
| "profile_loop blank db_raises now txs (address # rest) table updated_profiles =
     (case process_address blank db_raises now txs address table of
        Inl e \<Rightarrow> (Inl e, table)
      | Inr (table', saved) \<Rightarrow>
          profile_loop blank db_raises now txs rest table'
            (if saved then updated_profiles + 1 else updated_profiles))"

definition update_user_behavior_profiles_task ::
  "UserBehaviorProfile \<Rightarrow> (string \<Rightarrow> bool) \<Rightarrow> int \<Rightarrow> NFTTransaction list \<Rightarrow> profiles \<Rightarrow>
   (py_error + nat) \<times> profiles" where
  "update_user_behavior_profiles_task blank db_raises now txs table =
     (let end_time = now;
          start_time = end_time - timedelta_days 7
      in profile_loop blank db_raises now txs (recent_addresses start_time txs) table 0)"

section \<open>Concrete inputs\<close>

text \<open>Rows and collaborators on which the theorems below are evaluated.\<close>

definition jan31 :: "int \<Rightarrow> datetime" where
  "jan31 y = \<lparr>year = y, month = 1, day = 31, micros = 36000000000\<rparr>"

definition feb1 :: "int \<Rightarrow> datetime" where
  "feb1 y = \<lparr>year = y, month = 2, day = 1, micros = 36000000000\<rparr>"

definition monthly_report :: "int \<Rightarrow> AutomatedReport" where
  "monthly_report y =
     \<lparr>report_id = 1, frequency = ''monthly'', last_run = Some (jan31 y), next_run = jan31 y,
      is_active = True\<rparr>"

definition new_report :: AutomatedReport where
  "new_report =
     \<lparr>report_id = 3, frequency = ''weekly'', last_run = None, next_run = jan31 2030,
      is_active = True\<rparr>"

definition daily_report :: AutomatedReport where
  "daily_report =
     \<lparr>report_id = 1, frequency = ''daily'', last_run = Some (jan31 2023), next_run = feb1 2023,
      is_active = True\<rparr>"

definition weekly_report :: AutomatedReport where
  "weekly_report =
     \<lparr>report_id = 2, frequency = ''weekly'', last_run = Some (jan31 2023), next_run = feb1 2024,
      is_active = True\<rparr>"

definition generator_fails_on_1 :: "AutomatedReport \<Rightarrow> py_error + unit" where
  "generator_fails_on_1 r = (if report_id r = 1 then Inl (Raised ''render'') else Inr ())"

definition anomaly1 :: AnomalyDetection where
  "anomaly1 = \<lparr>anomaly_id = 1, detected_at = 0, status = ''pending''\<rparr>"

definition anomaly2 :: AnomalyDetection where
  "anomaly2 = \<lparr>anomaly_id = 2, detected_at = 1000000, status = ''pending''\<rparr>"



definition delivers :: "AnomalyDetection \<Rightarrow> py_error + unit" where
  "delivers a = Inr ()"


definition anomaly_aged :: "nat \<Rightarrow> int \<Rightarrow> string \<Rightarrow> AnomalyDetection" where
  "anomaly_aged i days st = \<lparr>anomaly_id = i, detected_at = timedelta_days (100 - days), status = st\<rparr>"

definition log_aged :: "nat \<Rightarrow> int \<Rightarrow> WebhookLog" where
  "log_aged i days = \<lparr>log_id = i, sent_at = timedelta_days (100 - days)\<rparr>"

definition blank0 :: UserBehaviorProfile where
  "blank0 =
     \<lparr>wallet_address = [], first_seen = 0, last_activity = 0, avg_transaction_value = 0,
      transaction_frequency = 0, total_transactions = 0, total_volume = 0,
      preferred_collections = [], risk_score = 0\<rparr>"

definition never_raises :: "string \<Rightarrow> bool" where
  "never_raises a = False"


definition tx0 :: NFTTransaction where
  "tx0 =
     \<lparr>buyer_address = Some ''0xA'', seller_address = Some ''0xB'', price = Some 15,
      timestamp = 1000, nft_contract = ''0xC''\<rparr>"

definition txs0 :: "NFTTransaction list" where
  "txs0 = replicate 11 tx0"

section \<open>Retention rate\<close>



section \<open>Next run of a report\<close>

lemma add_days_4:
  "add_days 4 dt =
     (case next_day dt of Inl e \<Rightarrow> Inl e | Inr a \<Rightarrow>
        (case next_day a of Inl e \<Rightarrow> Inl e | Inr b \<Rightarrow>
           (case next_day b of Inl e \<Rightarrow> Inl e | Inr c \<Rightarrow> next_day c)))"
  by (simp add: eval_nat_numeral split: sum.splits)

text \<open>
  What the monthly branch computes: the first day of the month after \<open>last_run\<close>, at the
  time of day of \<open>last_run\<close>, whatever the day of \<open>last_run\<close>.
\<close>

lemma calculate_next_run_monthly:
  assumes "valid_datetime lr" and "last_run self = Some lr" and "frequency self = ''monthly''"
    and "year lr < 9999 \<or> month lr < 12"
  shows "calculate_next_run now self =
     Inr (self\<lparr>next_run := lr\<lparr>year := (if month lr = 12 then year lr + 1 else year lr),
                              month := (if month lr = 12 then 1 else month lr + 1),
                              day := 1\<rparr>\<rparr>)"
proof -
  have "1 \<le> month lr" "month lr \<le> 12"
    using assms(1) by (simp_all add: valid_datetime_def)
  then have m: "month lr \<in> {1, 2, 3, 4, 5, 6, 7, 8, 9, 10, 11, 12}"
    by (simp; arith)
  show ?thesis
    using assms m
    apply (simp add: calculate_next_run_def replace_day_def days_in_month_def add_days_4)
    apply (auto simp: next_day_def prev_day_def days_in_month_def eval_nat_numeral
                      valid_datetime_def split: sum.splits)
    done
qed

text \<open>
  C2. A monthly report whose \<open>last_run\<close> is January 31 gets \<open>next_run\<close> = February 1
  (in a common year and in a leap year), not the last day of February: the code goes to
  the first day of the next month instead of adding one month.
\<close>

theorem calculate_next_run_jan31:
  "calculate_next_run now (monthly_report 2023) = Inr ((monthly_report 2023)\<lparr>next_run := feb1 2023\<rparr>)
   \<and> calculate_next_run now (monthly_report 2024) = Inr ((monthly_report 2024)\<lparr>next_run := feb1 2024\<rparr>)"
  by (simp add: calculate_next_run_def monthly_report_def jan31_def feb1_def replace_day_def
        days_in_month_def is_leap_def next_day_def prev_day_def eval_nat_numeral)

lemma dt_le_refl: "dt_le t t"
  by (simp add: dt_le_def)

text \<open>
  C10. When \<open>last_run\<close> is unset, \<open>calculate_next_run\<close> sets \<open>next_run\<close> to the current
  time \<open>t\<close>, whatever the frequency. The time condition \<open>next_run \<le> now\<close> of
  \<open>generate_scheduled_reports_task\<close> then holds at \<open>t\<close> itself and at every later \<open>now\<close>,
  and the saved report is selected exactly when it is active.
\<close>

theorem calculate_next_run_unset:
  assumes "last_run self = None"
  shows "calculate_next_run t self = Inr (self\<lparr>next_run := t\<rparr>)
     \<and> dt_le (next_run (self\<lparr>next_run := t\<rparr>)) t
     \<and> (dt_le t now \<longrightarrow> self\<lparr>next_run := t\<rparr> \<in> set reports \<longrightarrow>
          (self\<lparr>next_run := t\<rparr> \<in> set (due_reports now reports) \<longleftrightarrow> is_active self))"
  using assms by (simp add: calculate_next_run_def due_reports_def dt_le_refl)

theorem calculate_next_run_unset_witness:
  "calculate_next_run (jan31 2024) new_report = Inr (new_report\<lparr>next_run := jan31 2024\<rparr>)
   \<and> new_report\<lparr>next_run := jan31 2024\<rparr>
       \<in> set (due_reports (feb1 2024) [daily_report, new_report\<lparr>next_run := jan31 2024\<rparr>])"
proof -
  have h: "last_run new_report = None"
    by (simp add: new_report_def)
  have le: "dt_le (jan31 2024) (feb1 2024)"
    by (simp add: dt_le_def jan31_def feb1_def)
  have act: "is_active new_report"
    by (simp add: new_report_def)
  show ?thesis
    using calculate_next_run_unset
            [OF h, of "jan31 2024" "feb1 2024" "[daily_report, new_report\<lparr>next_run := jan31 2024\<rparr>]"]
          le act
    by simp
qed

section \<open>Cleanup\<close>

text \<open>
  C8. \<open>cleanup_old_data_task\<close> keeps exactly the anomalies whose age at the first clock
  reading is at most 90 days and the webhook logs whose age at the second clock reading
  is at most 30 days, in their order; it deletes the others, whatever their other
  columns hold, and reports their numbers.
\<close>

theorem cleanup_old_data_task_exact:
  "cleanup_old_data_task now1 now2 anomalies logs =
     (filter (\<lambda>a. now1 - detected_at a \<le> timedelta_days 90) anomalies,
      filter (\<lambda>l. now2 - sent_at l \<le> timedelta_days 30) logs,
      length (filter (\<lambda>a. now1 - detected_at a > timedelta_days 90) anomalies),
      length (filter (\<lambda>l. now2 - sent_at l > timedelta_days 30) logs))"
proof -
  have a: "(detected_at x < now1 - timedelta_days 90) = (now1 - detected_at x > timedelta_days 90)"
    for x :: "'a AnomalyDetection_scheme"
    by linarith
  have a': "(now1 - timedelta_days 90 \<le> detected_at x) = (now1 - detected_at x \<le> timedelta_days 90)"
    for x :: "'a AnomalyDetection_scheme"
    by linarith
  have b: "(sent_at x < now2 - timedelta_days 30) = (now2 - sent_at x > timedelta_days 30)"
    for x :: "'b WebhookLog_scheme"
    by linarith
  have b': "(now2 - timedelta_days 30 \<le> sent_at x) = (now2 - sent_at x \<le> timedelta_days 30)"
    for x :: "'b WebhookLog_scheme"
    by linarith
  show ?thesis
    by (simp add: cleanup_old_data_task_def delete_rows_def Let_def a a' b b' not_less)
qed

theorem cleanup_old_data_task_witness:
  "cleanup_old_data_task (timedelta_days 100) (timedelta_days 100)
     [anomaly_aged 1 100 ''pending'', anomaly_aged 2 90 ''pending'',
      anomaly_aged 3 91 ''processed'', anomaly_aged 4 50 ''failed'']
     [log_aged 1 31, log_aged 2 30, log_aged 3 0]
   = ([anomaly_aged 2 90 ''pending'', anomaly_aged 4 50 ''failed''],
      [log_aged 2 30, log_aged 3 0], 2, 1)"
  using cleanup_old_data_task_exact
          [of "timedelta_days 100" "timedelta_days 100"
              "[anomaly_aged 1 100 ''pending'', anomaly_aged 2 90 ''pending'',
                anomaly_aged 3 91 ''processed'', anomaly_aged 4 50 ''failed'']"
              "[log_aged 1 31, log_aged 2 30, log_aged 3 0]"]
  by (simp add: anomaly_aged_def log_aged_def timedelta_days_def)

section \<open>Webhook dispatch\<close>


lemma webhook_loop_all: "\<forall>a \<in> set xs. send a = Inr () \<Longrightarrow> webhook_loop send xs = (xs, None)"
  by (induction xs) (auto split: sum.splits prod.splits)







section \<open>Two runs of the webhook task\<close>

lemma count_list_shuffles:
  "zs \<in> shuffles xs ys \<Longrightarrow> count_list zs a = count_list xs a + count_list ys a"
proof (induction xs ys arbitrary: zs rule: shuffles.induct)
  case (1 ys)
  then show ?case by simp
next
  case (2 xs)
  then show ?case by simp
next
  case (3 x xs y ys)
  from "3.prems" consider
      (left) zs' where "zs = x # zs'" "zs' \<in> shuffles xs (y # ys)"
    | (right) zs' where "zs = y # zs'" "zs' \<in> shuffles (x # xs) ys"
    by auto
  then show ?case
  proof cases
    case left
    then show ?thesis using "3.IH"(1)[of zs'] by simp
  next
    case right
    then show ?thesis using "3.IH"(2)[of zs'] by simp
  qed
qed


lemma count_list_distinct: "distinct xs \<Longrightarrow> a \<in> set xs \<Longrightarrow> count_list xs a = 1"
  by (induction xs) (auto simp: count_list_0_iff)

text \<open>
  C7, as the code has it. The task writes nothing between selecting the pending rows
  and invoking \<open>send_anomaly_alert\<close>: there is no claim step. Two runs that observe the
  same pending set each invoke \<open>send_anomaly_alert\<close> on every row of it (no invocation
  raising), so under every interleaving \<open>zs\<close> of their invocations each selected
  anomaly is dispatched exactly twice.
\<close>

theorem two_runs_dispatch_twice:
  assumes "distinct rows"
    and "\<forall>x. send x = Inr ()"
    and "recent_anomalies now1 rows = recent_anomalies now2 rows"
    and "zs \<in> shuffles (fst (trigger_webhooks_task send now1 rows))
                        (fst (trigger_webhooks_task send now2 rows))"
    and "a \<in> set (recent_anomalies now1 rows)"
  shows "count_list zs a = 2"
proof -
  have all: "webhook_loop send xs = (xs, None)" for xs
    using assms(2) by (intro webhook_loop_all) simp
  have r1: "fst (trigger_webhooks_task send now1 rows) = recent_anomalies now1 rows"
    by (simp add: trigger_webhooks_task_def all)
  have r2: "fst (trigger_webhooks_task send now2 rows) = recent_anomalies now1 rows"
    using assms(3) by (simp add: trigger_webhooks_task_def all)
  have "distinct (recent_anomalies now1 rows)"
    using assms(1) by (simp add: recent_anomalies_def)
  then have one: "count_list (recent_anomalies now1 rows) a = 1"
    using assms(5) by (rule count_list_distinct)
  have "zs \<in> shuffles (recent_anomalies now1 rows) (recent_anomalies now1 rows)"
    using assms(4) unfolding r1 r2 .
  then have "count_list zs a
      = count_list (recent_anomalies now1 rows) a + count_list (recent_anomalies now1 rows) a"
    by (rule count_list_shuffles)
  then show ?thesis using one by simp
qed


theorem two_runs_dispatch_twice_witness:
  "count_list [anomaly1, anomaly1, anomaly2, anomaly2] anomaly1 = 2
   \<and> [anomaly1, anomaly1, anomaly2, anomaly2]
       \<in> shuffles (fst (trigger_webhooks_task delivers 60000000 [anomaly1, anomaly2]))
                  (fst (trigger_webhooks_task delivers 61000000 [anomaly1, anomaly2]))"
proof -
  have d: "distinct [anomaly1, anomaly2]"
    by (simp add: anomaly1_def anomaly2_def)
  have ok: "\<forall>x. delivers x = Inr ()"
    by (simp add: delivers_def)
  have s1: "recent_anomalies 60000000 [anomaly1, anomaly2] = [anomaly1, anomaly2]"
    by (simp add: recent_anomalies_def anomaly1_def anomaly2_def timedelta_minutes_def)
  have s2: "recent_anomalies 61000000 [anomaly1, anomaly2] = [anomaly1, anomaly2]"
    by (simp add: recent_anomalies_def anomaly1_def anomaly2_def timedelta_minutes_def)
  have same: "recent_anomalies 60000000 [anomaly1, anomaly2]
                = recent_anomalies 61000000 [anomaly1, anomaly2]"
    using s1 s2 by simp
  have t1: "fst (trigger_webhooks_task delivers 60000000 [anomaly1, anomaly2]) = [anomaly1, anomaly2]"
    by (simp add: trigger_webhooks_task_def s1 delivers_def)
  have t2: "fst (trigger_webhooks_task delivers 61000000 [anomaly1, anomaly2]) = [anomaly1, anomaly2]"
    by (simp add: trigger_webhooks_task_def s2 delivers_def)
  have "[anomaly1, anomaly1, anomaly2, anomaly2] \<in> shuffles [anomaly1, anomaly2] [anomaly1, anomaly2]"
    apply (rule Cons_in_shuffles_leftI)
    apply (rule Cons_in_shuffles_rightI)
    apply (rule Cons_in_shuffles_leftI)
    apply simp
    done
  then have sh: "[anomaly1, anomaly1, anomaly2, anomaly2]
              \<in> shuffles (fst (trigger_webhooks_task delivers 60000000 [anomaly1, anomaly2]))
                         (fst (trigger_webhooks_task delivers 61000000 [anomaly1, anomaly2]))"
    unfolding t1 t2 .
  have mem: "anomaly1 \<in> set (recent_anomalies 60000000 [anomaly1, anomaly2])"
    unfolding s1 by simp
  have "count_list [anomaly1, anomaly1, anomaly2, anomaly2] anomaly1 = 2"
    using d ok same sh mem by (rule two_runs_dispatch_twice)
  then show ?thesis using sh by blast
qed

text \<open>
  C7 as stated fails: two runs that both observe anomaly 1 pending both dispatch it.
\<close>

theorem no_claim_step_counterexample:
  "recent_anomalies 60000000 [anomaly1] = recent_anomalies 61000000 [anomaly1]
   \<and> fst (trigger_webhooks_task delivers 60000000 [anomaly1])
       @ fst (trigger_webhooks_task delivers 61000000 [anomaly1]) = [anomaly1, anomaly1]"
  by (simp add: trigger_webhooks_task_def recent_anomalies_def anomaly1_def delivers_def
        timedelta_minutes_def)

section \<open>Behaviour profiles\<close>

















text \<open>
  Eleven sales of 15 each on one day between two addresses, in one collection: the
  profile that the task stores for the buyer.
\<close>

lemma profile_of_0xA:
  "snd (update_user_behavior_profiles_task blank0 never_raises 2000 txs0 Map.empty) ''0xA''
     = Some \<lparr>wallet_address = ''0xA'', first_seen = 2000, last_activity = 1000,
             avg_transaction_value = 15, transaction_frequency = 11, total_transactions = 11,
             total_volume = 165, preferred_collections = [''0xC''], risk_score = 4 / 5\<rparr>"
  by code_simp

text \<open>
  C9. For the metrics frequency 11, volume 150, two preferred collections and 15
  transactions, the risk score that the task stores, \<open>min(risk_score, 1.0)\<close>, is 0.8.
\<close>

theorem risk_score_example:
  "min (risk_contributions 11 150 [c1, c2] 15) 1 = 4 / 5"
  by (simp add: risk_contributions_def)



section \<open>Exceptions in the batch loops\<close>






text \<open>
  The loop over the due reports on the same pattern: the generator raises for report 1,
  and report 2 is generated and rescheduled all the same.
\<close>

lemma report_events_example:
  "generate_scheduled_reports_task generator_fails_on_1 (feb1 2024) [daily_report, weekly_report]
     = ([daily_report,
         weekly_report\<lparr>last_run := Some (feb1 2024),
                         next_run := \<lparr>year = 2024, month = 2, day = 8, micros = 36000000000\<rparr>\<rparr>],
        1, [Failed 1 (Raised ''render''), Generated 2])"
  by code_simp

end
